theory Spec2Isabelle
  imports Main "HOL-Library.Sublist"
begin

section \<open>keepdataflow: database operations\<close>

text \<open>
  A shallow embedding of \<^verbatim>\<open>keepdataflow/archive/database_operations.py\<close>.
  Strings are \<^typ>\<open>string\<close>; Python's \<^verbatim>\<open>Optional[str]\<close> is
  \<^typ>\<open>string option\<close>. The text handled here (identifiers and compiled DDL) is
  taken to be ASCII, one \<^typ>\<open>char\<close> per Python character.
\<close>

subsection \<open>Python string primitives\<close>

text \<open>
  \<^verbatim>\<open>s.replace(old, new)\<close>: the occurrences of \<open>old\<close> are found from left to
  right without overlap, and each is replaced by \<open>new\<close>. With an empty \<open>old\<close>, Python
  puts \<open>new\<close> before every character and at the end.
\<close>

function py_replace_scan :: "string \<Rightarrow> string \<Rightarrow> string \<Rightarrow> string" where
  "py_replace_scan old new [] = []"
| "py_replace_scan old new (c # cs) =
     (if old \<noteq> [] \<and> prefix old (c # cs)
      then new @ py_replace_scan old new (drop (length old) (c # cs))
      else c # py_replace_scan old new cs)"
  by pat_completeness auto
termination
  by (relation "measure (\<lambda>(old, new, s). length s)") (auto simp: neq_Nil_conv)

definition py_replace :: "string \<Rightarrow> string \<Rightarrow> string \<Rightarrow> string" where
  "py_replace old new s =
     (if old = [] then new @ concat (map (\<lambda>c. c # new) s)
      else py_replace_scan old new s)"

text \<open>
  The regular expression \<^verbatim>\<open>IDENTITY(\(\d+,\d+\))?\<close> of \<open>create_temp_table\<close>.
  \<open>match_digits\<close> is \<^verbatim>\<open>\d+\<close>: it consumes the longest run of decimal digits and
  fails on an empty run (the character after the run is a comma or a closing parenthesis
  in the pattern, so no shorter run can lead to a match). \<open>match_seed_increment\<close> is the
  group \<^verbatim>\<open>\(\d+,\d+\)\<close>; both return the number of characters matched. On
  ASCII text \<^verbatim>\<open>\d\<close> is one of the ten digits.
\<close>

definition is_digit :: "char \<Rightarrow> bool" where
  "is_digit c = (c \<in> set ''0123456789'')"

definition match_digits :: "string \<Rightarrow> nat option" where
  "match_digits s =
     (let n = length (takeWhile is_digit s) in if n = 0 then None else Some n)"

definition match_seed_increment :: "string \<Rightarrow> nat option" where
  "match_seed_increment s =
     (case s of
        [] \<Rightarrow> None
      | c # r1 \<Rightarrow>
          if c \<noteq> CHR ''('' then None
          else (case match_digits r1 of
                  None \<Rightarrow> None
                | Some m \<Rightarrow>
                    (case drop m r1 of
                       [] \<Rightarrow> None
                     | d # r2 \<Rightarrow>
                         if d \<noteq> CHR '','' then None
                         else (case match_digits r2 of
                                 None \<Rightarrow> None
                               | Some n \<Rightarrow>
                                   (case drop n r2 of
                                      [] \<Rightarrow> None
                                    | e # r3 \<Rightarrow>
                                        if e \<noteq> CHR '')'' then None
                                        else Some (m + n + 3))))))"

text \<open>
  The length of the match of the whole pattern at the start of \<open>s\<close>, if there is one:
  the literal \<^verbatim>\<open>IDENTITY\<close>, then the optional group, taken when it matches
  (the \<^verbatim>\<open>?\<close> is greedy).
\<close>

definition match_identity :: "string \<Rightarrow> nat option" where
  "match_identity s =
     (if prefix ''IDENTITY'' s
      then (case match_seed_increment (drop 8 s) of
              None \<Rightarrow> Some 8
            | Some k \<Rightarrow> Some (8 + k))
      else None)"

text \<open>
  \<^verbatim>\<open>re.sub(pattern, '', s)\<close>: every leftmost, non-overlapping match is deleted. The
  pattern never matches the empty string.
\<close>

function re_sub_identity :: "string \<Rightarrow> string" where
  "re_sub_identity [] = []"
| "re_sub_identity (c # cs) =
     (case match_identity (c # cs) of
        Some k \<Rightarrow> re_sub_identity (drop k (c # cs))
      | None \<Rightarrow> c # re_sub_identity cs)"
  by pat_completeness auto
termination
  by (relation "measure length")
     (auto simp: match_identity_def split: if_splits option.splits)

subsection \<open>Identifier formatter\<close>

text \<open>
  \<^verbatim>\<open>if schema_name:\<close> is Python truthiness: \<^verbatim>\<open>None\<close> and the empty string
  both take the \<^verbatim>\<open>else\<close> branch.
\<close>

definition truthy :: "string option \<Rightarrow> bool" where
  "truthy s = (case s of None \<Rightarrow> False | Some x \<Rightarrow> x \<noteq> [])"

definition table_name_formattter :: "string \<Rightarrow> string option \<Rightarrow> string" where
  "table_name_formattter table_name schema_name =
     (if truthy schema_name then the schema_name @ ''.'' @ table_name
      else table_name)"

subsection \<open>Data, errors and effects\<close>

text \<open>
  A dataframe is a list of rows, a row an ordered list of column name and value
  (\<^verbatim>\<open>iter_rows(named=True)\<close>). An exception is a value of \<open>error\<close> carrying its
  message; \<open>ExternalError\<close> is whatever a collaborator (SQLAlchemy, polars, keepitsql,
  the database) raises.
\<close>

type_synonym row = "(string \<times> string) list"
type_synonym dataframe = "row list"

datatype error =
    ValueError string
  | TypeError string
  | IndexError string
  | ExternalError string

fun error_message :: "error \<Rightarrow> string" where
  "error_message (ValueError m) = m"
| "error_message (TypeError m) = m"
| "error_message (IndexError m) = m"
| "error_message (ExternalError m) = m"

datatype session = Session nat

text \<open>\<^verbatim>\<open>Optional[Union[str, List[str]]]\<close>, the type of \<open>partition_by\<close>.\<close>

datatype partition_by = ByNone | ByColumn string | ByList "string list"

text \<open>
  A Python value as \<open>full_refresh\<close> can receive it: the annotation says \<^verbatim>\<open>str\<close>,
  which Python does not enforce.
\<close>

datatype pyval = PyNone | PyBool bool | PyInt int | PyStr string

text \<open>\<^verbatim>\<open>v == 'lit'\<close> for a string literal: only an equal string compares equal.\<close>

fun py_eq_str :: "pyval \<Rightarrow> string \<Rightarrow> bool" where
  "py_eq_str (PyStr s) lit = (s = lit)"
| "py_eq_str _ lit = False"

text \<open>
  What the program does to the outside, in the order it does it: a run returns its
  result (or the exception it raises) and the list of these events.
\<close>

datatype event =
    Enter session
  | Exit session
  | Execute session string "row list"
  | Commit session
  | Print string
  | Partition int partition_by
  | GenerateMerge string "string list" string "string list" string
  | ReadDatabaseUri string string "int option"

type_synonym 'a run = "(error + 'a) \<times> event list"

record column =
  col_name :: string
  col_type :: string
  primary_key :: bool

record table =
  tbl_name :: string
  tbl_columns :: "column list"
  tbl_schema :: "string option"

text \<open>
  The collaborators, none of which is in the source file: the \<open>DatabaseEngine\<close> and its
  sessions, the database behind them, SQLAlchemy's inspector and DDL compiler, keepitsql's
  statement generators, the partitioner, polars' reader, the file system, the random
  generator and the thread pool. Each is a parameter, so that every theorem holds
  whatever they do. A field of type \<open>string + 'a\<close> is a call that returns \<open>Inr\<close> its
  value or raises (\<open>Inl\<close> the message); \<open>execute_raises\<close> and \<open>commit_raises\<close> say
  whether the statement or the commit is rejected. An exception leaves a \<^verbatim>\<open>with\<close>
  block through the context manager's exit and goes on to the caller.
\<close>

record world =
  engine_enter :: "string + session"
  get_dbms_dialect :: string
  dialect_name :: string
  execute_raises :: "string \<Rightarrow> row list \<Rightarrow> string option"
  commit_raises :: "session \<Rightarrow> string option"
  get_columns :: "string \<Rightarrow> string option \<Rightarrow> string + (string \<times> string) list"
  get_pk_constraint :: "string \<Rightarrow> string option \<Rightarrow> string + string list"
  compile_create_table :: "table \<Rightarrow> string + string"
  get_table_column_info :: "string \<Rightarrow> string option \<Rightarrow> string + (string list \<times> string list)"
  insert_text :: "dataframe \<Rightarrow> string \<Rightarrow> string option \<Rightarrow> string + string"
  dbms_merge_generator ::
    "dataframe option \<Rightarrow> string \<Rightarrow> string list \<Rightarrow> string \<Rightarrow> string list \<Rightarrow> string
     \<Rightarrow> string + string"
  partition_dataframe :: "dataframe option \<Rightarrow> int \<Rightarrow> partition_by \<Rightarrow> string + dataframe list"
  random_choices :: string
  create_engine :: "string \<Rightarrow> string + string"
  isfile :: "string \<Rightarrow> bool"
  read_file :: "string \<Rightarrow> string + string"
  read_database_uri :: "string \<Rightarrow> string \<Rightarrow> int option \<Rightarrow> string + dataframe"
  thread_pool :: "event list list \<Rightarrow> event list"

text \<open>Sequencing: the second step runs only if the first did not raise.\<close>

definition and_then :: "'a run \<Rightarrow> ('a \<Rightarrow> 'b run) \<Rightarrow> 'b run" where
  "and_then r k =
     (case r of
        (Inl e, t) \<Rightarrow> (Inl e, t)
      | (Inr x, t) \<Rightarrow> (case k x of (y, t') \<Rightarrow> (y, t @ t')))"

text \<open>\<^verbatim>\<open>with self.database_engine as session: body\<close>\<close>

definition with_engine :: "world \<Rightarrow> (session \<Rightarrow> 'a run) \<Rightarrow> 'a run" where
  "with_engine w body =
     (case engine_enter w of
        Inl m \<Rightarrow> (Inl (ExternalError m), [])
      | Inr session \<Rightarrow>
          (case body session of (r, t) \<Rightarrow> (r, [Enter session] @ t @ [Exit session])))"

text \<open>\<^verbatim>\<open>session.execute(text(sql), params)\<close> and \<^verbatim>\<open>session.commit()\<close>\<close>

definition session_execute :: "world \<Rightarrow> session \<Rightarrow> string \<Rightarrow> row list \<Rightarrow> unit run" where
  "session_execute w session sql params =
     (case execute_raises w sql params of
        Some m \<Rightarrow> (Inl (ExternalError m), [Execute session sql params])
      | None \<Rightarrow> (Inr (), [Execute session sql params]))"

definition session_commit :: "world \<Rightarrow> session \<Rightarrow> unit run" where
  "session_commit w session =
     (case commit_raises w session of
        Some m \<Rightarrow> (Inl (ExternalError m), [Commit session])
      | None \<Rightarrow> (Inr (), [Commit session]))"

subsection \<open>Temp table provisioner\<close>

definition create_temp_table_headers :: "(string \<times> string) list" where
  "create_temp_table_headers =
     [(''oracle'', ''CREATE GLOBAL TEMPORARY TABLE''),
      (''mssql'', ''CREATE TABLE ##''),
      (''db2'', []),
      (''postgresql'', ''CREATE TEMP TABLE ''),
      (''mysql'', ''CREATE TEMPORARY TABLE ''),
      (''sqlite'', ''CREATE TEMP TABLE ''),
      (''teradata'', []),
      (''hana'', []),
      (''snowflake'', []),
      (''redshift'', ''CREATE TEMP TABLE ''),
      (''bigquery'', [])]"

text \<open>
  The textual rewrite of the compiled DDL, lines 161 to 166. The double quote is
  \<open>CHR 0x22\<close>, and \<open>[]\<close> is the empty string.
\<close>

definition rewrite_ddl :: "string \<Rightarrow> string \<Rightarrow> string" where
  "rewrite_ddl temp_table_header compiled =
     (let ddl = py_replace [CHR 0x22] [] compiled;
          temp_ddl = py_replace ''['' [] (py_replace '']'' []
                       (py_replace ''CREATE TABLE '' temp_table_header ddl))
      in re_sub_identity temp_ddl)"

text \<open>
  \<open>create_temp_table\<close> only reads the database, through the inspector and the
  compiler bound to the session it is given; the session's own \<^verbatim>\<open>with\<close> block
  around the body leaves no event. A dialect that is not a key of the dictionary gives
  \<^verbatim>\<open>None\<close> for the header, and \<^verbatim>\<open>str.replace\<close> raises a
  \<^verbatim>\<open>TypeError\<close> on it, after the DDL has been compiled.
\<close>

definition create_temp_table ::
  "world \<Rightarrow> string \<Rightarrow> string option \<Rightarrow> string option \<Rightarrow> string option \<Rightarrow> error + string" where
  "create_temp_table w table_name source_schema new_table_name target_schema =
     (case get_columns w table_name source_schema of
        Inl m \<Rightarrow> Inl (ExternalError m)
      | Inr columns_info \<Rightarrow>
          (case get_pk_constraint w table_name source_schema of
             Inl m \<Rightarrow> Inl (ExternalError m)
           | Inr constrained_columns \<Rightarrow>
               (let columns =
                      map (\<lambda>(name, type).
                             \<lparr>col_name = name, col_type = type,
                              primary_key = (name \<in> set constrained_columns)\<rparr>)
                          columns_info;
                    final_table_name =
                      (if truthy new_table_name then the new_table_name else table_name);
                    table = \<lparr>tbl_name = final_table_name, tbl_columns = columns,
                             tbl_schema = target_schema\<rparr>;
                    temp_table_header = map_of create_temp_table_headers (dialect_name w)
                in case compile_create_table w table of
                     Inl m \<Rightarrow> Inl (ExternalError m)
                   | Inr compiled \<Rightarrow>
                       (case temp_table_header of
                          None \<Rightarrow> Inl (TypeError ''replace() argument 2 must be str, not None'')
                        | Some header \<Rightarrow> Inr (rewrite_ddl header compiled)))))"

definition generate_temp_table_name :: "world \<Rightarrow> string \<Rightarrow> string" where
  "generate_temp_table_name w table_name =
     ''_source_'' @ table_name @ ''_'' @ random_choices w"

subsection \<open>Staging insert executor and truncate\<close>

text \<open>
  \<open>insert_data_partition\<close> catches every exception of its body, prints it and returns
  \<^verbatim>\<open>None\<close>.
\<close>

definition insert_data_partition ::
  "world \<Rightarrow> dataframe \<Rightarrow> session \<Rightarrow> string \<Rightarrow> string option \<Rightarrow> string option \<Rightarrow> unit run" where
  "insert_data_partition w part session target_table target_schema source_table =
     (let params_list = part;
          tbl_name = table_name_formattter target_table target_schema
      in case (case insert_text w part tbl_name source_table of
                 Inl m \<Rightarrow> (Inl (ExternalError m), [])
               | Inr insert_sql \<Rightarrow> session_execute w session insert_sql params_list) of
           (Inl e, t) \<Rightarrow> (Inr (), t @ [Print (''An error occurred: '' @ error_message e)])
         | (Inr u, t) \<Rightarrow> (Inr u, t))"

text \<open>
  The statement is built from \<open>target_table\<close> alone; \<open>target_schema\<close> is a parameter
  that the body does not read.
\<close>

definition truncate_table :: "world \<Rightarrow> string \<Rightarrow> string option \<Rightarrow> unit run" where
  "truncate_table w target_table target_schema =
     with_engine w (\<lambda>session.
       and_then (session_execute w session (''DELETE FROM '' @ target_table) [])
                (\<lambda>_. session_commit w session))"

text \<open>The inner function of \<open>db_insert\<close>, one call per partition.\<close>

definition insert_partition_with_session ::
  "world \<Rightarrow> session option \<Rightarrow> string \<Rightarrow> string option \<Rightarrow> dataframe \<Rightarrow> unit run" where
  "insert_partition_with_session w session target_table target_schema part =
     (case (case session of
              Some db_session \<Rightarrow>
                insert_data_partition w part db_session target_table target_schema None
            | None \<Rightarrow>
                with_engine w (\<lambda>db_session.
                  insert_data_partition w part db_session target_table target_schema None)) of
        (Inl e, t) \<Rightarrow>
          (Inr (), t @ [Print (''An error occurred in insert_partition_with_session: ''
                               @ error_message e)])
      | (Inr u, t) \<Rightarrow> (Inr u, t))"

text \<open>
  \<^verbatim>\<open>if isinstance(partition_by, list): partition_by = partition_by[0]\<close>, which
  raises on an empty list.
\<close>

definition unwrap_partition_by :: "partition_by \<Rightarrow> error + partition_by" where
  "unwrap_partition_by partition_by =
     (case partition_by of
        ByList [] \<Rightarrow> Inl (IndexError ''list index out of range'')
      | ByList (x # xs) \<Rightarrow> Inr (ByColumn x)
      | _ \<Rightarrow> Inr partition_by)"

text \<open>
  \<open>db_insert\<close>, given \<^verbatim>\<open>self.dataframe\<close>. The partitions go to a thread pool, whose
  \<^verbatim>\<open>map\<close> results are never read; the pool interleaves the events of the tasks in a way
  the program does not control (\<open>thread_pool\<close>), and the \<^verbatim>\<open>with\<close> block waits for all
  of them.
\<close>

definition db_insert ::
  "world \<Rightarrow> dataframe option \<Rightarrow> string \<Rightarrow> string option \<Rightarrow> session option \<Rightarrow> partition_by
   \<Rightarrow> pyval \<Rightarrow> int \<Rightarrow> unit run" where
  "db_insert w dataframe target_table target_schema session partition_by full_refresh chunk_size =
     (case dataframe of
        None \<Rightarrow> (Inl (ValueError ''No DataFrame loaded.''), [])
      | Some df \<Rightarrow>
          (case unwrap_partition_by partition_by of
             Inl e \<Rightarrow> (Inl e, [])
           | Inr column_name \<Rightarrow>
               (case partition_dataframe w (Some df) chunk_size column_name of
                  Inl m \<Rightarrow> (Inl (ExternalError m), [Partition chunk_size column_name])
                | Inr parts \<Rightarrow>
                    and_then (Inr (), [Partition chunk_size column_name]) (\<lambda>_.
                    and_then
                      (if py_eq_str full_refresh ''Y''
                       then truncate_table w
                              (table_name_formattter target_table target_schema) None
                       else (Inr (), []))
                      (\<lambda>_. (Inr (),
                            thread_pool w
                              (map (\<lambda>part. snd (insert_partition_with_session w session
                                                  target_table target_schema part))
                                   parts)))))))"

subsection \<open>Source extraction\<close>



subsection \<open>Merge orchestrator\<close>

definition upsert_data_partition ::
  "world \<Rightarrow> dataframe option \<Rightarrow> session \<Rightarrow> string \<Rightarrow> string \<Rightarrow> string list \<Rightarrow> string list
   \<Rightarrow> string \<Rightarrow> unit run" where
  "upsert_data_partition w dataframe session table_name dbms match_condition
                         constraint_columns source_table =
     (case dbms_merge_generator w dataframe table_name match_condition dbms
             constraint_columns source_table of
        Inl m \<Rightarrow>
          (Inl (ExternalError m),
           [GenerateMerge table_name match_condition dbms constraint_columns source_table])
      | Inr merge_sql \<Rightarrow>
          and_then
            (Inr (), [GenerateMerge table_name match_condition dbms constraint_columns
                        source_table])
            (\<lambda>_. and_then (session_execute w session merge_sql [])
                           (\<lambda>_. session_commit w session)))"

text \<open>
  \<open>db_merge\<close>. The second positional argument of \<open>create_temp_table\<close> is the source
  schema, so the target's schema goes there and the staging table gets no schema.
\<close>

definition db_merge ::
  "world \<Rightarrow> dataframe option \<Rightarrow> string \<Rightarrow> string option \<Rightarrow> string list option
   \<Rightarrow> string list option \<Rightarrow> partition_by \<Rightarrow> int \<Rightarrow> unit run" where
  "db_merge w dataframe target_table target_schema match_condition constraint_columns
            partition_by chunk_size =
     with_engine w (\<lambda>session.
       case get_table_column_info w target_table target_schema of
         Inl m \<Rightarrow> (Inl (ExternalError m), [])
       | Inr (auto_columns, primary_key_list) \<Rightarrow>
           (case partition_dataframe w dataframe chunk_size partition_by of
              Inl m \<Rightarrow> (Inl (ExternalError m), [Partition chunk_size partition_by])
            | Inr parts \<Rightarrow>
                (let constraint_list =
                       (case constraint_columns of None \<Rightarrow> auto_columns | Some c \<Rightarrow> c);
                     match_list =
                       (case match_condition of None \<Rightarrow> primary_key_list | Some m \<Rightarrow> m);
                     dbms = get_dbms_dialect w;
                     gen_temp_table_name = generate_temp_table_name w target_table
                 in and_then (Inr (), [Partition chunk_size partition_by]) (\<lambda>_.
                    case create_temp_table w target_table target_schema
                           (Some gen_temp_table_name) None of
                      Inl e \<Rightarrow> (Inl e, [])
                    | Inr temp_table \<Rightarrow>
                        and_then (session_execute w session temp_table []) (\<lambda>_.
                        (let gen_temp_table_name =
                               (if dbms = ''mssql'' then ''##'' @ gen_temp_table_name
                                else gen_temp_table_name)
                         in and_then
                              (Inr (), [Print (''Begin '' @ gen_temp_table_name @ '' insert'')])
                              (\<lambda>_.
                            and_then
                              (db_insert w dataframe gen_temp_table_name None (Some session)
                                 partition_by (PyStr ''N'') chunk_size)
                              (\<lambda>_.
                            upsert_data_partition w dataframe session
                              (table_name_formattter target_table target_schema) dbms
                              match_list constraint_list gen_temp_table_name))))))))"

subsection \<open>A concrete environment\<close>

text \<open>
  An environment to run the operations in: a table \<open>orders(id, status)\<close> with primary key
  \<open>id\<close> on a dialect with an empty header entry, a compiler that renders the header, the
  name and the columns, a partitioner that makes one partition per row, and a pool that
  runs the tasks in the order of submission. Nothing fails in it.
\<close>

fun render_columns :: "column list \<Rightarrow> string" where
  "render_columns [] = []"
| "render_columns [c] = col_name c @ '' '' @ col_type c"
| "render_columns (c # cs) = col_name c @ '' '' @ col_type c @ '', '' @ render_columns cs"

definition render_create_table :: "table \<Rightarrow> string" where
  "render_create_table t =
     [CHR 0x0A] @ ''CREATE TABLE '' @ table_name_formattter (tbl_name t) (tbl_schema t)
     @ '' ('' @ render_columns (tbl_columns t) @ '')''"

definition demo_world :: world where
  "demo_world =
     \<lparr>engine_enter = Inr (Session 1),
      get_dbms_dialect = ''db2'',
      dialect_name = ''db2'',
      execute_raises = (\<lambda>sql params. None),
      commit_raises = (\<lambda>session. None),
      get_columns = (\<lambda>t s. Inr [(''id'', ''INTEGER NOT NULL''), (''status'', ''VARCHAR(20)'')]),
      get_pk_constraint = (\<lambda>t s. Inr [''id'']),
      compile_create_table = (\<lambda>t. Inr (render_create_table t)),
      get_table_column_info = (\<lambda>t s. Inr ([''status''], [''id''])),
      insert_text = (\<lambda>df t src. Inr (''INSERT INTO '' @ t @ '' (id, status) VALUES (:id, :status)'')),
      dbms_merge_generator = (\<lambda>df t m d c src. Inr (''MERGE INTO '' @ t @ '' USING '' @ src)),
      partition_dataframe =
        (\<lambda>df n c. case df of None \<Rightarrow> Inl ''no dataframe'' | Some d \<Rightarrow> Inr (map (\<lambda>r. [r]) d)),
      random_choices = ''abcd'',
      create_engine = (\<lambda>url. Inr url),
      isfile = (\<lambda>path. False),
      read_file = (\<lambda>path. Inl ''No such file or directory''),
      read_database_uri = (\<lambda>q url n. Inr [[(''id'', ''1''), (''status'', ''new'')]]),
      thread_pool = concat\<rparr>"

definition demo_dataframe :: dataframe where
  "demo_dataframe =
     [[(''id'', ''1''), (''status'', ''new'')], [(''id'', ''2''), (''status'', ''paid'')]]"

text \<open>The same environment where the database rejects every \<^verbatim>\<open>INSERT\<close>.\<close>

definition rejecting_world :: world where
  "rejecting_world =
     demo_world\<lparr>execute_raises :=
       (\<lambda>sql params. if prefix ''INSERT'' sql then Some ''constraint violated'' else None)\<rparr>"


section \<open>Properties\<close>

subsection \<open>Runs of the basic operations\<close>

lemma py_eq_str_iff: "py_eq_str v lit \<longleftrightarrow> v = PyStr lit"
  by (cases v) auto

lemma truncate_table_run:
  "truncate_table w tt ts =
     (case engine_enter w of
        Inl m \<Rightarrow> (Inl (ExternalError m), [])
      | Inr sess \<Rightarrow>
          (case execute_raises w (''DELETE FROM '' @ tt) [] of
             Some m \<Rightarrow> (Inl (ExternalError m),
                        [Enter sess, Execute sess (''DELETE FROM '' @ tt) [], Exit sess])
           | None \<Rightarrow>
               (case commit_raises w sess of
                  Some m \<Rightarrow> (Inl (ExternalError m),
                             [Enter sess, Execute sess (''DELETE FROM '' @ tt) [], Commit sess,
                              Exit sess])
                | None \<Rightarrow> (Inr (),
                           [Enter sess, Execute sess (''DELETE FROM '' @ tt) [], Commit sess,
                            Exit sess]))))"
  by (simp add: truncate_table_def with_engine_def and_then_def session_execute_def
        session_commit_def split: sum.splits option.splits)

lemma db_insert_run:
  assumes "unwrap_partition_by pb = Inr col"
      and "partition_dataframe w (Some df) cs col = Inr parts"
  shows "db_insert w (Some df) t s ses pb fr cs =
           (if py_eq_str fr ''Y''
            then (case truncate_table w (table_name_formattter t s) None of
                    (Inl e, tt) \<Rightarrow> (Inl e, Partition cs col # tt)
                  | (Inr u, tt) \<Rightarrow>
                      (Inr (), Partition cs col # tt @
                         thread_pool w
                           (map (\<lambda>part. snd (insert_partition_with_session w ses t s part))
                                parts)))
            else (Inr (), Partition cs col #
                    thread_pool w
                      (map (\<lambda>part. snd (insert_partition_with_session w ses t s part))
                           parts)))"
  using assms by (simp add: db_insert_def and_then_def split: prod.splits sum.splits)

lemma demo_unwrap: "unwrap_partition_by ByNone = Inr ByNone"
  by (simp add: unwrap_partition_by_def)

lemma demo_partition:
  "partition_dataframe demo_world (Some demo_dataframe) 1 ByNone =
     Inr [[[(''id'', ''1''), (''status'', ''new'')]], [[(''id'', ''2''), (''status'', ''paid'')]]]"
  by (simp add: demo_world_def demo_dataframe_def)

lemma rejecting_partition:
  "partition_dataframe rejecting_world (Some demo_dataframe) 1 ByNone =
     Inr [[[(''id'', ''1''), (''status'', ''new'')]], [[(''id'', ''2''), (''status'', ''paid'')]]]"
  by (simp add: rejecting_world_def demo_world_def demo_dataframe_def)

subsection \<open>Identifier formatter\<close>

text \<open>
  C8. \<open>table_name_formattter\<close> is a function of its two arguments alone, with a string
  for every input: it takes no environment and returns no error. It returns the bare
  table name when the schema is \<^verbatim>\<open>None\<close> or the empty string (both are falsy), and
  \<open>schema.table\<close> for every other schema.
\<close>

theorem table_name_formattter_spec:
  "table_name_formattter t None = t
   \<and> table_name_formattter t (Some []) = t
   \<and> (s \<noteq> [] \<longrightarrow> table_name_formattter t (Some s) = s @ ''.'' @ t)"
  by (simp add: table_name_formattter_def truthy_def)

theorem table_name_formattter_spec_witness:
  "''sales'' \<noteq> [] \<and> table_name_formattter ''orders'' (Some ''sales'') = ''sales.orders''"
  using table_name_formattter_spec [of "''orders''" "''sales''"] by simp

subsection \<open>Insert without a dataframe\<close>

text \<open>
  C9. With no dataframe loaded, \<open>db_insert\<close> raises \<^verbatim>\<open>ValueError\<close> and has done
  nothing: the run has no event, so no partitioning, no truncation and no insert.
\<close>

theorem db_insert_no_dataframe:
  "db_insert w None t s ses pb fr cs = (Inl (ValueError ''No DataFrame loaded.''), [])"
  by (simp add: db_insert_def)

subsection \<open>Truncate\<close>

text \<open>
  C7. Called with table \<open>orders\<close> and schema \<open>sales\<close>, \<open>truncate_table\<close> opens one
  session, executes \<^verbatim>\<open>DELETE FROM orders\<close>, commits and leaves the session: the
  statement names the bare table, not \<open>sales.orders\<close>.
\<close>

theorem truncate_table_ignores_schema:
  "truncate_table demo_world ''orders'' (Some ''sales'') =
     (Inr (), [Enter (Session 1), Execute (Session 1) ''DELETE FROM orders'' [],
               Commit (Session 1), Exit (Session 1)])"
  by (simp add: truncate_table_run demo_world_def)

subsection \<open>Full refresh\<close>

text \<open>
  C10. Once the dataframe is partitioned, \<open>db_insert\<close> runs \<open>truncate_table\<close> exactly
  when \<open>full_refresh\<close> is the string \<open>Y\<close>. For every other value (a boolean, \<open>y\<close>, the
  default \<open>N\<close>) the run is the partitioning followed by the inserts of the pool, with no
  statement before them, and it is the run of the default \<open>N\<close>. For \<open>Y\<close> the events of
  \<open>truncate_table\<close> come right after the partitioning.
\<close>

theorem db_insert_truncates_only_on_Y:
  assumes "unwrap_partition_by pb = Inr col"
      and "partition_dataframe w (Some df) cs col = Inr parts"
  shows "(fr \<noteq> PyStr ''Y'' \<longrightarrow>
            db_insert w (Some df) t s ses pb fr cs =
              (Inr (), Partition cs col #
                 thread_pool w
                   (map (\<lambda>part. snd (insert_partition_with_session w ses t s part)) parts))
            \<and> db_insert w (Some df) t s ses pb fr cs =
                db_insert w (Some df) t s ses pb (PyStr ''N'') cs)
         \<and> (fr = PyStr ''Y'' \<longrightarrow>
              snd (db_insert w (Some df) t s ses pb fr cs) =
                Partition cs col # snd (truncate_table w (table_name_formattter t s) None)
                @ (case fst (truncate_table w (table_name_formattter t s) None) of
                     Inl e \<Rightarrow> []
                   | Inr u \<Rightarrow>
                       thread_pool w
                         (map (\<lambda>part. snd (insert_partition_with_session w ses t s part))
                              parts)))"
  by (simp add: db_insert_run [OF assms] py_eq_str_iff split: prod.splits sum.splits)

theorem db_insert_truncates_only_on_Y_witness:
  "unwrap_partition_by ByNone = Inr ByNone
   \<and> partition_dataframe demo_world (Some demo_dataframe) 1 ByNone =
       Inr [[[(''id'', ''1''), (''status'', ''new'')]], [[(''id'', ''2''), (''status'', ''paid'')]]]
   \<and> PyBool True \<noteq> PyStr ''Y''
   \<and> db_insert demo_world (Some demo_dataframe) ''orders'' None None ByNone (PyBool True) 1 =
       (Inr (),
        [Partition 1 ByNone,
         Enter (Session 1),
         Execute (Session 1) ''INSERT INTO orders (id, status) VALUES (:id, :status)''
           [[(''id'', ''1''), (''status'', ''new'')]],
         Exit (Session 1),
         Enter (Session 1),
         Execute (Session 1) ''INSERT INTO orders (id, status) VALUES (:id, :status)''
           [[(''id'', ''2''), (''status'', ''paid'')]],
         Exit (Session 1)])"
proof -
  have run:
    "db_insert demo_world (Some demo_dataframe) ''orders'' None None ByNone (PyBool True) 1 =
       (Inr (), Partition 1 ByNone #
          thread_pool demo_world
            (map (\<lambda>part. snd (insert_partition_with_session demo_world None ''orders'' None part))
                 [[[(''id'', ''1''), (''status'', ''new'')]],
                  [[(''id'', ''2''), (''status'', ''paid'')]]]))"
    using db_insert_truncates_only_on_Y [OF demo_unwrap demo_partition,
            of "PyBool True" "''orders''" None None]
    by simp
  show ?thesis
    unfolding run
    by (simp add: demo_unwrap demo_partition)
       (simp add: demo_world_def insert_partition_with_session_def with_engine_def
          insert_data_partition_def session_execute_def table_name_formattter_def truthy_def)
qed

text \<open>
  C6. A run of \<open>db_insert\<close> with \<open>full_refresh\<close> equal to \<open>Y\<close> that returns is the
  partitioning, then the whole of the truncate (enter the session, execute the delete,
  commit, exit), and only then what the pool does with the partitions. A run that raises
  has stopped before anything was submitted to the pool: it has no event, or the
  partitioning alone, or the partitioning and a truncate that failed.
\<close>

theorem db_insert_full_refresh_truncates_first:
  assumes "db_insert w dfo t s ses pb (PyStr ''Y'') cs = (r, tr)"
  shows "case r of
           Inr u \<Rightarrow>
             (\<exists>df col parts sess.
                dfo = Some df \<and> unwrap_partition_by pb = Inr col
                \<and> partition_dataframe w (Some df) cs col = Inr parts
                \<and> engine_enter w = Inr sess
                \<and> tr = [Partition cs col, Enter sess,
                         Execute sess (''DELETE FROM '' @ table_name_formattter t s) [],
                         Commit sess, Exit sess]
                        @ thread_pool w
                            (map (\<lambda>part. snd (insert_partition_with_session w ses t s part))
                                 parts))
         | Inl e \<Rightarrow>
             tr = []
             \<or> (\<exists>col. tr = [Partition cs col]
                  \<or> (\<exists>sess.
                        tr = [Partition cs col, Enter sess,
                              Execute sess (''DELETE FROM '' @ table_name_formattter t s) [],
                              Exit sess]
                        \<or> tr = [Partition cs col, Enter sess,
                                 Execute sess (''DELETE FROM '' @ table_name_formattter t s) [],
                                 Commit sess, Exit sess]))"
proof (cases dfo)
  case None
  with assms show ?thesis
    by (auto simp: db_insert_def)
next
  case (Some df)
  show ?thesis
  proof (cases "unwrap_partition_by pb")
    case (Inl e)
    with assms Some show ?thesis
      by (auto simp: db_insert_def)
  next
    case (Inr col)
    show ?thesis
    proof (cases "partition_dataframe w (Some df) cs col")
      case (Inl m)
      with assms Some Inr show ?thesis
        by (auto simp: db_insert_def)
    next
      case parts: (Inr parts)
      from assms Some
      have "db_insert w (Some df) t s ses pb (PyStr ''Y'') cs = (r, tr)"
        by simp
      with Some Inr parts show ?thesis
        by (auto simp: db_insert_run [OF Inr parts] truncate_table_run
              split: sum.splits option.splits)
    qed
  qed
qed

theorem db_insert_full_refresh_truncates_first_witness:
  "db_insert demo_world (Some demo_dataframe) ''orders'' (Some ''sales'') None ByNone
     (PyStr ''Y'') 1 =
     (Inr (),
      [Partition 1 ByNone,
       Enter (Session 1), Execute (Session 1) ''DELETE FROM sales.orders'' [],
       Commit (Session 1), Exit (Session 1),
       Enter (Session 1),
       Execute (Session 1) ''INSERT INTO sales.orders (id, status) VALUES (:id, :status)''
         [[(''id'', ''1''), (''status'', ''new'')]],
       Exit (Session 1),
       Enter (Session 1),
       Execute (Session 1) ''INSERT INTO sales.orders (id, status) VALUES (:id, :status)''
         [[(''id'', ''2''), (''status'', ''paid'')]],
       Exit (Session 1)])
   \<and> (\<exists>df col parts sess.
         Some demo_dataframe = Some df \<and> unwrap_partition_by ByNone = Inr col
         \<and> partition_dataframe demo_world (Some df) 1 col = Inr parts
         \<and> engine_enter demo_world = Inr sess
         \<and> [Partition 1 ByNone,
            Enter (Session 1), Execute (Session 1) ''DELETE FROM sales.orders'' [],
            Commit (Session 1), Exit (Session 1),
            Enter (Session 1),
            Execute (Session 1) ''INSERT INTO sales.orders (id, status) VALUES (:id, :status)''
              [[(''id'', ''1''), (''status'', ''new'')]],
            Exit (Session 1),
            Enter (Session 1),
            Execute (Session 1) ''INSERT INTO sales.orders (id, status) VALUES (:id, :status)''
              [[(''id'', ''2''), (''status'', ''paid'')]],
            Exit (Session 1)]
           = [Partition 1 col, Enter sess,
              Execute sess (''DELETE FROM '' @ table_name_formattter ''orders'' (Some ''sales'')) [],
              Commit sess, Exit sess]
             @ thread_pool demo_world
                 (map (\<lambda>part. snd (insert_partition_with_session demo_world None ''orders''
                                     (Some ''sales'') part))
                      parts))"
proof -
  have run:
    "db_insert demo_world (Some demo_dataframe) ''orders'' (Some ''sales'') None ByNone
       (PyStr ''Y'') 1 =
       (Inr (),
        [Partition 1 ByNone,
         Enter (Session 1), Execute (Session 1) ''DELETE FROM sales.orders'' [],
         Commit (Session 1), Exit (Session 1),
         Enter (Session 1),
         Execute (Session 1) ''INSERT INTO sales.orders (id, status) VALUES (:id, :status)''
           [[(''id'', ''1''), (''status'', ''new'')]],
         Exit (Session 1),
         Enter (Session 1),
         Execute (Session 1) ''INSERT INTO sales.orders (id, status) VALUES (:id, :status)''
           [[(''id'', ''2''), (''status'', ''paid'')]],
         Exit (Session 1)])"
    unfolding db_insert_run [OF demo_unwrap demo_partition] truncate_table_run
    by (simp add: demo_world_def insert_partition_with_session_def with_engine_def
          insert_data_partition_def session_execute_def table_name_formattter_def truthy_def)
  from db_insert_full_refresh_truncates_first [OF run] run show ?thesis
    by simp
qed

subsection \<open>Failing partitions\<close>

lemma insert_data_partition_returns:
  "fst (insert_data_partition w part sess t s src) = Inr ()"
  by (simp add: insert_data_partition_def session_execute_def
        split: sum.splits option.splits prod.splits)

lemma insert_partition_with_session_returns:
  "fst (insert_partition_with_session w ses t s part) = Inr ()"
  by (simp add: insert_partition_with_session_def split: sum.splits option.splits prod.splits)

text \<open>
  C2, as the code has it. \<open>insert_data_partition\<close> and the task that wraps it return
  normally whatever happens inside. When the statement is rejected the run is the
  execution followed by a printed line, and when the statement cannot be generated it is
  the printed line alone. \<open>db_insert\<close> submits every partition to the pool, each task
  computed on its own, and its result is that of the truncate (when \<open>full_refresh\<close> is
  \<open>Y\<close>) or \<^verbatim>\<open>None\<close>: nothing of a partition's failure reaches the caller.
\<close>

theorem insert_failure_printed_not_reported:
  "fst (insert_data_partition w part sess t s src) = Inr ()
   \<and> fst (insert_partition_with_session w ses t s part) = Inr ()
   \<and> (insert_text w part (table_name_formattter t s) src = Inr sql
        \<and> execute_raises w sql part = Some m \<longrightarrow>
        insert_data_partition w part sess t s src =
          (Inr (), [Execute sess sql part, Print (''An error occurred: '' @ m)]))
   \<and> (insert_text w part (table_name_formattter t s) src = Inl m \<longrightarrow>
        insert_data_partition w part sess t s src =
          (Inr (), [Print (''An error occurred: '' @ m)]))
   \<and> (unwrap_partition_by pb = Inr col
        \<and> partition_dataframe w (Some df) cs col = Inr parts \<longrightarrow>
        fst (db_insert w (Some df) t s ses pb fr cs) =
          (if fr = PyStr ''Y'' then fst (truncate_table w (table_name_formattter t s) None)
           else Inr ())
        \<and> (fr \<noteq> PyStr ''Y'' \<longrightarrow>
             snd (db_insert w (Some df) t s ses pb fr cs) =
               Partition cs col #
               thread_pool w
                 (map (\<lambda>part. snd (insert_partition_with_session w ses t s part)) parts)))"
proof -
  have a: "insert_data_partition w part sess t s src =
             (Inr (), [Execute sess sql part, Print (''An error occurred: '' @ m)])"
    if "insert_text w part (table_name_formattter t s) src = Inr sql"
      and "execute_raises w sql part = Some m"
    using that by (simp add: insert_data_partition_def session_execute_def)
  have b: "insert_data_partition w part sess t s src =
             (Inr (), [Print (''An error occurred: '' @ m)])"
    if "insert_text w part (table_name_formattter t s) src = Inl m"
    using that by (simp add: insert_data_partition_def)
  have c: "fst (db_insert w (Some df) t s ses pb fr cs) =
             (if fr = PyStr ''Y'' then fst (truncate_table w (table_name_formattter t s) None)
              else Inr ())
           \<and> (fr \<noteq> PyStr ''Y'' \<longrightarrow>
                snd (db_insert w (Some df) t s ses pb fr cs) =
                  Partition cs col #
                  thread_pool w
                    (map (\<lambda>part. snd (insert_partition_with_session w ses t s part)) parts))"
    if u: "unwrap_partition_by pb = Inr col"
      and p: "partition_dataframe w (Some df) cs col = Inr parts"
    by (simp add: db_insert_run [OF u p] py_eq_str_iff split: prod.splits sum.splits)
  from a b c show ?thesis
    by (simp add: insert_data_partition_returns insert_partition_with_session_returns)
qed

theorem insert_failure_printed_not_reported_witness:
  "insert_text rejecting_world [[(''id'', ''1''), (''status'', ''new'')]]
     (table_name_formattter ''orders'' None) None =
     Inr ''INSERT INTO orders (id, status) VALUES (:id, :status)''
   \<and> execute_raises rejecting_world ''INSERT INTO orders (id, status) VALUES (:id, :status)''
       [[(''id'', ''1''), (''status'', ''new'')]] = Some ''constraint violated''
   \<and> insert_data_partition rejecting_world [[(''id'', ''1''), (''status'', ''new'')]] (Session 1)
       ''orders'' None None =
       (Inr (),
        [Execute (Session 1) ''INSERT INTO orders (id, status) VALUES (:id, :status)''
           [[(''id'', ''1''), (''status'', ''new'')]],
         Print ''An error occurred: constraint violated''])
   \<and> insert_text (rejecting_world\<lparr>insert_text := \<lambda>df t src. Inl ''no columns''\<rparr>) []
       (table_name_formattter ''orders'' None) None = Inl ''no columns''
   \<and> insert_data_partition (rejecting_world\<lparr>insert_text := \<lambda>df t src. Inl ''no columns''\<rparr>)
       [] (Session 1) ''orders'' None None =
       (Inr (), [Print ''An error occurred: no columns''])
   \<and> unwrap_partition_by ByNone = Inr ByNone
   \<and> partition_dataframe rejecting_world (Some demo_dataframe) 1 ByNone =
       Inr [[[(''id'', ''1''), (''status'', ''new'')]], [[(''id'', ''2''), (''status'', ''paid'')]]]
   \<and> fst (db_insert rejecting_world (Some demo_dataframe) ''orders'' None None ByNone
            (PyStr ''N'') 1) = Inr ()"
proof -
  have h1: "insert_text rejecting_world [[(''id'', ''1''), (''status'', ''new'')]]
              (table_name_formattter ''orders'' None) None =
              Inr ''INSERT INTO orders (id, status) VALUES (:id, :status)''"
    by (simp add: rejecting_world_def demo_world_def table_name_formattter_def truthy_def)
  have h2: "execute_raises rejecting_world
              ''INSERT INTO orders (id, status) VALUES (:id, :status)''
              [[(''id'', ''1''), (''status'', ''new'')]] = Some ''constraint violated''"
    by (simp add: rejecting_world_def demo_world_def)
  from insert_failure_printed_not_reported
         [where w = rejecting_world and part = "[[(''id'', ''1''), (''status'', ''new'')]]"
            and sess = "Session 1" and t = "''orders''" and s = None and src = None
            and sql = "''INSERT INTO orders (id, status) VALUES (:id, :status)''"
            and m = "''constraint violated''"]
       insert_failure_printed_not_reported
         [where w = "rejecting_world\<lparr>insert_text := \<lambda>df t src. Inl ''no columns''\<rparr>"
            and part = "[]" and sess = "Session 1" and t = "''orders''" and s = None
            and src = None and m = "''no columns''"]
       insert_failure_printed_not_reported
         [where w = rejecting_world and pb = ByNone and col = ByNone and df = demo_dataframe
            and cs = 1 and fr = "PyStr ''N''" and t = "''orders''" and s = None and ses = None
            and parts = "[[[(''id'', ''1''), (''status'', ''new'')]],
                          [[(''id'', ''2''), (''status'', ''paid'')]]]"]
       h1 h2 demo_unwrap rejecting_partition
  show ?thesis by simp
qed

text \<open>
  C2, as stated, fails: where the database rejects the insert of every partition,
  \<open>db_insert\<close> returns \<^verbatim>\<open>None\<close> as it does when all goes well, and the two failures
  are only printed.
\<close>

theorem partition_failure_not_surfaced_counterexample:
  "execute_raises rejecting_world
     ''INSERT INTO sales.orders (id, status) VALUES (:id, :status)''
     [[(''id'', ''1''), (''status'', ''new'')]] = Some ''constraint violated''
   \<and> db_insert rejecting_world (Some demo_dataframe) ''orders'' (Some ''sales'') None ByNone
       (PyStr ''N'') 1 =
       (Inr (),
        [Partition 1 ByNone,
         Enter (Session 1),
         Execute (Session 1) ''INSERT INTO sales.orders (id, status) VALUES (:id, :status)''
           [[(''id'', ''1''), (''status'', ''new'')]],
         Print ''An error occurred: constraint violated'',
         Exit (Session 1),
         Enter (Session 1),
         Execute (Session 1) ''INSERT INTO sales.orders (id, status) VALUES (:id, :status)''
           [[(''id'', ''2''), (''status'', ''paid'')]],
         Print ''An error occurred: constraint violated'',
         Exit (Session 1)])"
  unfolding db_insert_run [OF demo_unwrap rejecting_partition]
  by (simp add: rejecting_world_def demo_world_def insert_partition_with_session_def
        with_engine_def insert_data_partition_def session_execute_def
        table_name_formattter_def truthy_def)

subsection \<open>Source extraction\<close>




subsection \<open>Merge columns\<close>

lemma upsert_data_partition_ok:
  assumes "fst (upsert_data_partition w df sess tn dbms ms cs src) = Inr ()"
  shows "\<exists>sql. snd (upsert_data_partition w df sess tn dbms ms cs src) =
                 [GenerateMerge tn ms dbms cs src, Execute sess sql [], Commit sess]"
  using assms
  by (auto simp: upsert_data_partition_def and_then_def session_execute_def session_commit_def
        split: sum.splits option.splits)

text \<open>
  C4. Let introspection return the auto columns \<open>auto\<close> and the primary key \<open>pk\<close>.
  A call of \<open>db_merge\<close> with neither list is the call with \<open>pk\<close> as match condition and
  \<open>auto\<close> as constraint columns. Whatever the caller gives, a merge that completes ends
  with the merge statement generated for the target from the resolved lists (the caller's
  list where there is one, also an empty one, and the introspected list otherwise), its
  execution and the commit.
\<close>

theorem db_merge_resolves_columns:
  assumes "get_table_column_info w t s = Inr (auto, pk)"
  shows "db_merge w df t s None None pb cs = db_merge w df t s (Some pk) (Some auto) pb cs
         \<and> (fst (db_merge w df t s mc cc pb cs) = Inr () \<longrightarrow>
              (\<exists>pre sess sql.
                 snd (db_merge w df t s mc cc pb cs) =
                   pre @ [GenerateMerge (table_name_formattter t s)
                            (case mc of None \<Rightarrow> pk | Some m \<Rightarrow> m)
                            (get_dbms_dialect w)
                            (case cc of None \<Rightarrow> auto | Some c \<Rightarrow> c)
                            (if get_dbms_dialect w = ''mssql''
                             then ''##'' @ generate_temp_table_name w t
                             else generate_temp_table_name w t),
                          Execute sess sql [], Commit sess, Exit sess]))"
proof
  show "db_merge w df t s None None pb cs = db_merge w df t s (Some pk) (Some auto) pb cs"
    using assms by (simp add: db_merge_def Let_def cong: sum.case_cong)
next
  show "fst (db_merge w df t s mc cc pb cs) = Inr () \<longrightarrow>
          (\<exists>pre sess sql.
             snd (db_merge w df t s mc cc pb cs) =
               pre @ [GenerateMerge (table_name_formattter t s)
                        (case mc of None \<Rightarrow> pk | Some m \<Rightarrow> m)
                        (get_dbms_dialect w)
                        (case cc of None \<Rightarrow> auto | Some c \<Rightarrow> c)
                        (if get_dbms_dialect w = ''mssql''
                         then ''##'' @ generate_temp_table_name w t
                         else generate_temp_table_name w t),
                      Execute sess sql [], Commit sess, Exit sess])"
  proof
    let ?src = "if get_dbms_dialect w = ''mssql'' then ''##'' @ generate_temp_table_name w t
                else generate_temp_table_name w t"
    let ?M = "case mc of None \<Rightarrow> pk | Some m \<Rightarrow> m"
    let ?C = "case cc of None \<Rightarrow> auto | Some c \<Rightarrow> c"
    assume ok: "fst (db_merge w df t s mc cc pb cs) = Inr ()"
    then obtain sess where sess: "engine_enter w = Inr sess"
      by (cases "engine_enter w") (auto simp: db_merge_def with_engine_def)
    let ?u = "upsert_data_partition w df sess (table_name_formattter t s) (get_dbms_dialect w)
                ?M ?C ?src"
    from ok sess assms
    have "fst ?u = Inr () \<and> (\<exists>pre. snd (db_merge w df t s mc cc pb cs) = pre @ snd ?u @ [Exit sess])"
      by (auto simp: db_merge_def with_engine_def and_then_def Let_def session_execute_def
            split: sum.splits option.splits prod.splits if_splits)
    then obtain pre where u: "fst ?u = Inr ()"
      and tr: "snd (db_merge w df t s mc cc pb cs) = pre @ snd ?u @ [Exit sess]"
      by blast
    from upsert_data_partition_ok [OF u] obtain sql where
      "snd ?u = [GenerateMerge (table_name_formattter t s) ?M (get_dbms_dialect w) ?C ?src,
                 Execute sess sql [], Commit sess]"
      by blast
    with tr show "\<exists>pre sess sql.
             snd (db_merge w df t s mc cc pb cs) =
               pre @ [GenerateMerge (table_name_formattter t s) ?M (get_dbms_dialect w) ?C ?src,
                      Execute sess sql [], Commit sess, Exit sess]"
      by auto
  qed
qed

theorem db_merge_resolves_columns_witness:
  "get_table_column_info demo_world ''orders'' (Some ''sales'') = Inr ([''status''], [''id''])
   \<and> fst (db_merge demo_world (Some demo_dataframe) ''orders'' (Some ''sales'') None None
            ByNone 1) = Inr ()
   \<and> (\<exists>pre sess sql.
         snd (db_merge demo_world (Some demo_dataframe) ''orders'' (Some ''sales'') None None
                ByNone 1) =
           pre @ [GenerateMerge ''sales.orders'' [''id''] ''db2'' [''status'']
                    ''_source_orders_abcd'',
                  Execute sess sql [], Commit sess, Exit sess])"
proof -
  have h: "get_table_column_info demo_world ''orders'' (Some ''sales'') =
             Inr ([''status''], [''id''])"
    by (simp add: demo_world_def)
  have ok: "fst (db_merge demo_world (Some demo_dataframe) ''orders'' (Some ''sales'') None None
                   ByNone 1) = Inr ()"
    by code_simp
  have d: "get_dbms_dialect demo_world = ''db2''"
    and g: "generate_temp_table_name demo_world ''orders'' = ''_source_orders_abcd''"
    and f: "table_name_formattter ''orders'' (Some ''sales'') = ''sales.orders''"
    by (simp_all add: demo_world_def generate_temp_table_name_def table_name_formattter_def
          truthy_def)
  note inst = db_merge_resolves_columns
         [OF h, where df = "Some demo_dataframe" and mc = None and cc = None and pb = ByNone
            and cs = 1]
  from inst [THEN conjunct2] ok h
  show ?thesis
    by (simp add: d g f)
qed

subsection \<open>The rewrite of the compiled DDL\<close>



lemma not_digit [simp]: "\<not> is_digit CHR '',''" "\<not> is_digit CHR '')''"
  by (simp_all add: is_digit_def)









lemma py_replace_keep:
  "old \<noteq> [] \<Longrightarrow> \<not> prefix old (c # cs) \<Longrightarrow> py_replace old new (c # cs) = c # py_replace old new cs"
  by (simp add: py_replace_def)

lemma py_replace_hit:
  "old \<noteq> [] \<Longrightarrow> py_replace old new (old @ cs) = new @ py_replace old new cs"
  by (cases old) (simp_all add: py_replace_def)

lemma rewrite_ddl_header:
  "rewrite_ddl [] (CHR 0x0A # ''CREATE TABLE '' @ body) = CHR 0x0A # rewrite_ddl [] body"
proof -
  have q: "py_replace [CHR 0x22] [] (CHR 0x0A # ''CREATE TABLE '' @ body) =
             CHR 0x0A # ''CREATE TABLE '' @ py_replace [CHR 0x22] [] body"
    by (simp add: py_replace_def)
  have h: "py_replace ''CREATE TABLE '' [] (CHR 0x0A # ''CREATE TABLE '' @ b) =
             CHR 0x0A # py_replace ''CREATE TABLE '' [] b" for b
    using py_replace_hit [of "''CREATE TABLE ''" "[]" b]
    by (simp add: py_replace_keep)
  have k: "py_replace [x] [] (CHR 0x0A # b) = CHR 0x0A # py_replace [x] [] b"
    if "x \<noteq> CHR 0x0A" for x b
    using that by (simp add: py_replace_def)
  show ?thesis
    unfolding rewrite_ddl_def Let_def q h
    by (simp add: k match_identity_def)
qed

lemma demo_create_temp_table:
  "create_temp_table demo_world ''orders'' None (Some ''_source_orders_abcd'') None =
     Inr (CHR 0x0A # ''_source_orders_abcd (id INTEGER NOT NULL, status VARCHAR(20))'')"
  by code_simp










subsection \<open>Dialects with an empty header\<close>

lemma empty_headers:
  "\<forall>d \<in> set [''db2'', ''teradata'', ''hana'', ''snowflake'', ''bigquery''].
     map_of create_temp_table_headers d = Some []"
  by (simp add: create_temp_table_headers_def)

lemma create_temp_table_result:
  assumes "map_of create_temp_table_headers (dialect_name w) = Some header"
  shows "case create_temp_table w tn ss nn ts of
           Inl e \<Rightarrow>
             (\<exists>m. e = ExternalError m
                   \<and> (get_columns w tn ss = Inl m \<or> get_pk_constraint w tn ss = Inl m
                        \<or> (\<exists>tbl. compile_create_table w tbl = Inl m)))
         | Inr ddl \<Rightarrow>
             (\<exists>tbl compiled.
                compile_create_table w tbl = Inr compiled \<and> ddl = rewrite_ddl header compiled)"
  using assms
  by (auto simp: create_temp_table_def Let_def split: sum.splits)

text \<open>
  C1, as the code has it. On a dialect whose header entry is empty (db2, teradata, hana,
  snowflake and bigquery are such), \<open>create_temp_table\<close> raises only what introspection
  or the DDL compiler raise, and nothing on account of the dialect; otherwise it returns
  the rewrite of the compiled text with the empty string for header. In that rewrite the
  header \<^verbatim>\<open>CREATE TABLE\<close> that opens the compiled text (after the newline the
  compiler starts with) is deleted and nothing stands in its place.
\<close>

theorem create_temp_table_empty_header:
  assumes "map_of create_temp_table_headers (dialect_name w) = Some []"
  shows "(case create_temp_table w tn ss nn ts of
            Inl e \<Rightarrow>
              (\<exists>m. e = ExternalError m
                    \<and> (get_columns w tn ss = Inl m \<or> get_pk_constraint w tn ss = Inl m
                         \<or> (\<exists>tbl. compile_create_table w tbl = Inl m)))
          | Inr ddl \<Rightarrow>
              (\<exists>tbl compiled.
                 compile_create_table w tbl = Inr compiled \<and> ddl = rewrite_ddl [] compiled))
         \<and> rewrite_ddl [] (CHR 0x0A # ''CREATE TABLE '' @ body) = CHR 0x0A # rewrite_ddl [] body
         \<and> (\<forall>d \<in> set [''db2'', ''teradata'', ''hana'', ''snowflake'', ''bigquery''].
               map_of create_temp_table_headers d = Some [])"
  using create_temp_table_result [OF assms] rewrite_ddl_header empty_headers
  by simp

theorem create_temp_table_empty_header_witness:
  "map_of create_temp_table_headers (dialect_name demo_world) = Some []
   \<and> (\<exists>tbl compiled.
         compile_create_table demo_world tbl = Inr compiled
         \<and> create_temp_table demo_world ''orders'' None (Some ''_source_orders_abcd'') None =
             Inr (rewrite_ddl [] compiled))
   \<and> rewrite_ddl [] (CHR 0x0A # ''CREATE TABLE '' @ ''t (id INTEGER)'') =
       CHR 0x0A # rewrite_ddl [] ''t (id INTEGER)''"
proof -
  have h: "map_of create_temp_table_headers (dialect_name demo_world) = Some []"
    by (simp add: create_temp_table_headers_def demo_world_def)
  from create_temp_table_empty_header
         [OF h, where tn = "''orders''" and ss = None and nn = "Some ''_source_orders_abcd''"
            and ts = None and body = "''t (id INTEGER)''"]
       h
  show ?thesis
    by (simp add: demo_create_temp_table)
qed

text \<open>
  C1, as stated, fails: on db2 \<open>create_temp_table\<close> does not raise; it returns the
  compiled text without its header.
\<close>

theorem empty_header_counterexample:
  "dialect_name demo_world = ''db2''
   \<and> map_of create_temp_table_headers ''db2'' = Some []
   \<and> create_temp_table demo_world ''orders'' None (Some ''_source_orders_abcd'') None =
       Inr (CHR 0x0A # ''_source_orders_abcd (id INTEGER NOT NULL, status VARCHAR(20))'')"
  using demo_create_temp_table
  by (simp add: demo_world_def create_temp_table_headers_def)

end
